theory Spec2Isabelle
  imports Main
begin

section \<open>Dates, times and time zones\<close>

text \<open>
  The services of \<^verbatim>\<open>appointments/services.py\<close> compute with Python's
  \<^verbatim>\<open>datetime\<close> module. The model keeps what those computations observe.

  \<^item> A \<^verbatim>\<open>date\<close> is its proleptic Gregorian ordinal (\<^verbatim>\<open>date.toordinal()\<close>), an
    integer; day 1 is Monday 0001-01-01.
  \<^item> A \<^verbatim>\<open>time\<close> is the number of microseconds since midnight, from 0 up to
    but excluding \<open>DAY\<close>. The times of this
    program (\<^verbatim>\<open>datetime.time()\<close>, the \<^verbatim>\<open>TimeField\<close> values of a working hour) carry
    no time zone.
  \<^item> A \<^verbatim>\<open>timedelta\<close> is a number of microseconds.
  \<^item> A \<^verbatim>\<open>datetime\<close> is its wall-clock reading, in microseconds since midnight of
    ordinal 0, together with its \<^verbatim>\<open>tzinfo\<close>: \<open>None\<close> for a naive value, a fixed
    offset from UTC in minutes (\<^verbatim>\<open>datetime.timezone\<close>) for an aware one.

  The range of \<^verbatim>\<open>datetime\<close> (years 1 to 9999) is not modelled: dates are unbounded
  integers, so the \<^verbatim>\<open>OverflowError\<close> of arithmetic at the end of year 9999 has no
  branch here.
\<close>

type_synonym date = int
type_synonym time = int
type_synonym timedelta = int

datatype tzinfo = FixedOffset int

record datetime =
  wall :: int
  tzinfo :: "tzinfo option"

datatype py_exception =
  TypeError | ValueError | AttributeError | IntegrityError | MultipleObjectsReturned
  | OtherException

definition MINUTE :: int where
  "MINUTE = 60000000"

definition DAY :: int where
  "DAY = 86400000000"

definition timedelta_minutes :: "int \<Rightarrow> timedelta" where
  "timedelta_minutes m = m * MINUTE"

definition utcoffset :: "tzinfo \<Rightarrow> timedelta" where
  "utcoffset z = (case z of FixedOffset m \<Rightarrow> m * MINUTE)"

text \<open>\<^verbatim>\<open>d.date()\<close>, \<^verbatim>\<open>d.time()\<close> (which drops the zone) and \<^verbatim>\<open>d.weekday()\<close>
  (Monday is 0, Sunday is 6).\<close>

definition date_of :: "datetime \<Rightarrow> date" where
  "date_of d = wall d div DAY"

definition time_of :: "datetime \<Rightarrow> time" where
  "time_of d = wall d mod DAY"

definition weekday_of :: "datetime \<Rightarrow> nat" where
  "weekday_of d = nat ((date_of d + 6) mod 7)"

text \<open>\<^verbatim>\<open>datetime.datetime.combine(date, time)\<close> with a naive time: a naive datetime.\<close>

definition combine :: "date \<Rightarrow> time \<Rightarrow> datetime" where
  "combine dd t = \<lparr>wall = dd * DAY + t, tzinfo = None\<rparr>"

text \<open>\<^verbatim>\<open>d + timedelta\<close>: the wall clock moves, the \<^verbatim>\<open>tzinfo\<close> stays.\<close>

definition dt_add :: "datetime \<Rightarrow> timedelta \<Rightarrow> datetime" where
  "dt_add d td = d\<lparr>wall := wall d + td\<rparr>"

text \<open>\<^verbatim>\<open>a > b\<close> on datetimes: two naive values compare by wall clock, two aware
  values by their UTC instants (for one and the same \<^verbatim>\<open>tzinfo\<close> that is the wall
  clock again), and a naive value against an aware one raises \<^verbatim>\<open>TypeError\<close>.\<close>

definition dt_gt :: "datetime \<Rightarrow> datetime \<Rightarrow> py_exception + bool" where
  "dt_gt a b =
     (case (tzinfo a, tzinfo b) of
        (None, None) \<Rightarrow> Inr (wall a > wall b)
      | (Some za, Some zb) \<Rightarrow> Inr (wall a - utcoffset za > wall b - utcoffset zb)
      | _ \<Rightarrow> Inl TypeError)"

text \<open>\<^verbatim>\<open>django.utils.timezone.make_aware(value, timezone)\<close>: a missing zone is
  replaced by the current time zone of the Django process (the first argument here), an
  already aware value is refused with \<^verbatim>\<open>ValueError\<close>, and otherwise the zone is
  attached to the unchanged wall clock (\<^verbatim>\<open>value.replace(tzinfo=timezone)\<close>).\<close>

definition make_aware :: "tzinfo \<Rightarrow> datetime \<Rightarrow> tzinfo option \<Rightarrow> py_exception + datetime" where
  "make_aware current_timezone v timezone =
     (let z = (case timezone of None \<Rightarrow> current_timezone | Some z' \<Rightarrow> z')
      in if tzinfo v \<noteq> None then Inl ValueError else Inr (v\<lparr>tzinfo := Some z\<rparr>))"

section \<open>Working hours\<close>

datatype weekday = Monday | Tuesday | Wednesday | Thursday | Friday | Saturday | Sunday

text \<open>Modelled from the spec: \<^verbatim>\<open>django_hospital.utils.weekday_mapping\<close> is not among
  the source files. The spec describes it as the total, injective mapping from the
  calendar weekday index to one of seven weekday identifiers; the services index it
  with \<^verbatim>\<open>datetime.weekday()\<close> and with a value reduced modulo 7 only, so the
  indices are 0 (Monday, as the source's comment says) to 6 (Sunday).\<close>

definition weekday_mapping :: "nat \<Rightarrow> weekday" where
  "weekday_mapping i =
     (if i = 0 then Monday else if i = 1 then Tuesday else if i = 2 then Wednesday
      else if i = 3 then Thursday else if i = 4 then Friday else if i = 5 then Saturday
      else Sunday)"

text \<open>Modelled from the spec: the model class \<^verbatim>\<open>doctors.models.WorkingHour\<close> is not
  among the source files; its fields are the ones the services read. The break times
  are optional.\<close>

record WorkingHour =
  wh_doctor_id :: nat
  day_of_week :: weekday
  start_time :: time
  end_time :: time
  break_start_time :: "time option"
  break_end_time :: "time option"

text \<open>A query set is the list of its rows in primary-key order; \<^verbatim>\<open>.first()\<close> is
  the first row or \<open>None\<close>.\<close>

definition first :: "'a list \<Rightarrow> 'a option" where
  "first rows = (case rows of [] \<Rightarrow> None | r # _ \<Rightarrow> Some r)"

definition on_day :: "weekday \<Rightarrow> WorkingHour list \<Rightarrow> WorkingHour option" where
  "on_day name doctor_schedule = first (filter (\<lambda>w. day_of_week w = name) doctor_schedule)"

definition is_within_working_hours :: "time \<Rightarrow> WorkingHour \<Rightarrow> bool" where
  "is_within_working_hours current_time working_hour =
     (start_time working_hour \<le> current_time \<and> current_time \<le> end_time working_hour)"

text \<open>The source tests the two break times for truth. A \<^verbatim>\<open>datetime.time\<close> is
  always true (since Python 3.5 midnight is no longer false), so the test is the test
  that both are present.\<close>

definition is_during_break :: "time \<Rightarrow> WorkingHour \<Rightarrow> bool" where
  "is_during_break current_time working_hour =
     (case (break_start_time working_hour, break_end_time working_hour) of
        (Some bs, Some be) \<Rightarrow> bs \<le> current_time \<and> current_time \<le> be
      | _ \<Rightarrow> False)"

section \<open>The expiration of a request\<close>

text \<open>The loop of \<^verbatim>\<open>find_next_working_period_start\<close> over \<^verbatim>\<open>range(7)\<close>, as a
  recursion over the list of the offsets still to try. The exceptions of
  \<^verbatim>\<open>make_aware\<close> and of the comparison leave the loop.\<close>

fun find_next_loop ::
  "tzinfo \<Rightarrow> datetime \<Rightarrow> WorkingHour list \<Rightarrow> nat list \<Rightarrow> py_exception + datetime option" where
  "find_next_loop cur request_datetime doctor_schedule [] = Inr None"
| "find_next_loop cur request_datetime doctor_schedule (days_ahead # rest) =
     (case on_day (weekday_mapping ((weekday_of request_datetime + days_ahead) mod 7))
             doctor_schedule of
        None \<Rightarrow> find_next_loop cur request_datetime doctor_schedule rest
      | Some next_working_hour \<Rightarrow>
          (case make_aware cur
                  (combine (date_of request_datetime + int days_ahead)
                     (start_time next_working_hour))
                  (tzinfo request_datetime) of
             Inl e \<Rightarrow> Inl e
           | Inr next_start_time \<Rightarrow>
               (case dt_gt next_start_time request_datetime of
                  Inl e \<Rightarrow> Inl e
                | Inr later \<Rightarrow>
                    if later then Inr (Some (dt_add next_start_time (timedelta_minutes 15)))
                    else find_next_loop cur request_datetime doctor_schedule rest)))"

definition find_next_working_period_start ::
  "tzinfo \<Rightarrow> datetime \<Rightarrow> WorkingHour list \<Rightarrow> py_exception + datetime option" where
  "find_next_working_period_start cur request_datetime doctor_schedule =
     find_next_loop cur request_datetime doctor_schedule [0..<7]"

text \<open>\<^verbatim>\<open>set_request_expiration_datetime\<close>. Its second argument is the table of
  working hours, from which the doctor's schedule is filtered. In the break branch the
  break end is read again from the row; \<^verbatim>\<open>combine\<close> with a missing time would raise
  \<^verbatim>\<open>TypeError\<close>, which \<^verbatim>\<open>is_during_break\<close> excludes.\<close>

definition set_request_expiration_datetime ::
  "tzinfo \<Rightarrow> WorkingHour list \<Rightarrow> datetime \<Rightarrow> nat \<Rightarrow> py_exception + datetime option" where
  "set_request_expiration_datetime cur working_hours request_datetime doctor_id =
     (let doctor_schedule = filter (\<lambda>w. wh_doctor_id w = doctor_id) working_hours;
          current_time = time_of request_datetime;
          day_of_week = weekday_of request_datetime;
          working_hour_today = on_day (weekday_mapping day_of_week) doctor_schedule
      in case working_hour_today of
           None \<Rightarrow> find_next_working_period_start cur request_datetime doctor_schedule
         | Some wh \<Rightarrow>
             if is_within_working_hours current_time wh then
               (if is_during_break current_time wh then
                  (case break_end_time wh of
                     None \<Rightarrow> Inl TypeError
                   | Some be \<Rightarrow>
                       Inr (Some (dt_add (combine (date_of request_datetime) be)
                                    (timedelta_minutes 15))))
                else Inr (Some (dt_add request_datetime (timedelta_minutes 20))))
             else find_next_working_period_start cur request_datetime doctor_schedule)"

section \<open>Appointment requests and the two services\<close>

text \<open>Modelled from the spec: the model class \<^verbatim>\<open>appointments.models.AppointmentRequest\<close>
  is not among the source files. Its fields are the ones the services write and read;
  a new request is \<open>pending\<close>, the initial state of the spec's status machine.\<close>

record AppointmentRequest =
  ar_id :: nat
  patient_id :: nat
  ar_doctor_id :: nat
  preferred_datetime :: datetime
  request_expiration_datetime :: "datetime option"
  status :: string

record database =
  working_hours :: "WorkingHour list"
  appointment_requests :: "AppointmentRequest list"

text \<open>What a service call does: it raises (the exception leaves the service, and
  \<^verbatim>\<open>transaction.atomic\<close> leaves the tables as they were), it returns the dictionary
  \<^verbatim>\<open>{"error": message}\<close>, or it returns the serialised row.\<close>

datatype error_message =
  NotAvailableThatDay
  | NotOperationHours
  | LunchBreak
  | DatabaseError
  | ValueErrorMessage
  | UnexpectedError
  | RequestExpired
  | AlreadyAccepted
  | NotFound

datatype 'a response = Raises py_exception | Error error_message | Data 'a

text \<open>Whether \<^verbatim>\<open>Model.save()\<close> raises is decided by the schema and the database,
  which are not among the source files. It is a parameter of both services:
  \<open>save_raises row\<close> is the exception that saving \<open>row\<close> raises, or \<open>None\<close>
  when the row is stored.\<close>

type_synonym backend = "AppointmentRequest \<Rightarrow> py_exception option"

text \<open>The primary key of a new row is one the table does not hold.\<close>

definition fresh_id :: "AppointmentRequest list \<Rightarrow> nat" where
  "fresh_id rows = Suc (fold max (map ar_id rows) 0)"

definition new_request ::
  "database \<Rightarrow> nat \<Rightarrow> nat \<Rightarrow> datetime \<Rightarrow> datetime option \<Rightarrow> AppointmentRequest" where
  "new_request db patient doctor preferred expiration =
     \<lparr>ar_id = fresh_id (appointment_requests db), patient_id = patient,
      ar_doctor_id = doctor, preferred_datetime = preferred,
      request_expiration_datetime = expiration, status = ''pending''\<rparr>"

text \<open>The three handlers of \<^verbatim>\<open>create_appointment_request_service\<close>, in the
  source's order: \<^verbatim>\<open>IntegrityError\<close>, \<^verbatim>\<open>ValueError\<close>, any other exception.\<close>

definition save_error_message :: "py_exception \<Rightarrow> error_message" where
  "save_error_message e =
     (if e = IntegrityError then DatabaseError
      else if e = ValueError then ValueErrorMessage
      else UnexpectedError)"

text \<open>\<^verbatim>\<open>create_appointment_request_service\<close>. The request time is optional, as
  the source's default \<^verbatim>\<open>request_datetime=None\<close> has it; reading the time of
  \<^verbatim>\<open>None\<close> raises \<^verbatim>\<open>AttributeError\<close> outside the \<^verbatim>\<open>try\<close> block.\<close>

definition create_appointment_request_service ::
  "tzinfo \<Rightarrow> backend \<Rightarrow> database \<Rightarrow> nat \<Rightarrow> nat \<Rightarrow> datetime \<Rightarrow> datetime option
     \<Rightarrow> AppointmentRequest response \<times> database" where
  "create_appointment_request_service cur save_raises db patient doctor_id preferred request_datetime =
     (let preferred_datetime_day_of_week = weekday_mapping (weekday_of preferred);
          preferred_time_for_day = time_of preferred;
          doctor_working_hour =
            first (filter (\<lambda>w. wh_doctor_id w = doctor_id
                                \<and> day_of_week w = preferred_datetime_day_of_week)
                     (working_hours db))
      in case doctor_working_hour of
           None \<Rightarrow> (Error NotAvailableThatDay, db)
         | Some wh \<Rightarrow>
             if preferred_time_for_day < start_time wh \<or> preferred_time_for_day > end_time wh
             then (Error NotOperationHours, db)
             else if (case (break_start_time wh, break_end_time wh) of
                        (Some bs, Some be) \<Rightarrow>
                          bs \<le> preferred_time_for_day \<and> preferred_time_for_day \<le> be
                      | _ \<Rightarrow> False)
             then (Error LunchBreak, db)
             else
               (case request_datetime of
                  None \<Rightarrow> (Raises AttributeError, db)
                | Some rd \<Rightarrow>
                    (case set_request_expiration_datetime cur (working_hours db) rd doctor_id of
                       Inl e \<Rightarrow> (Raises e, db)
                     | Inr request_expiration \<Rightarrow>
                         (let appointment_request =
                                new_request db patient doctor_id preferred request_expiration
                          in case save_raises appointment_request of
                               Some e \<Rightarrow> (Error (save_error_message e), db)
                             | None \<Rightarrow>
                                 (Data appointment_request,
                                  db\<lparr>appointment_requests :=
                                       appointment_requests db @ [appointment_request]\<rparr>)))))"

text \<open>\<^verbatim>\<open>update_appointment_request_status\<close>. \<^verbatim>\<open>objects.get(id=...)\<close> raises
  \<^verbatim>\<open>DoesNotExist\<close> for no row, which the service turns into the not-found
  error, and \<^verbatim>\<open>MultipleObjectsReturned\<close> for several, which it does not catch.
  A missing expiration makes the comparison raise \<^verbatim>\<open>TypeError\<close>. Saving updates
  the row with the same primary key.\<close>

definition update_appointment_request_status ::
  "backend \<Rightarrow> database \<Rightarrow> nat \<Rightarrow> string \<Rightarrow> datetime
     \<Rightarrow> AppointmentRequest response \<times> database" where
  "update_appointment_request_status save_raises db appointment_request_id new_status request_datetime =
     (case filter (\<lambda>r. ar_id r = appointment_request_id) (appointment_requests db) of
        [] \<Rightarrow> (Error NotFound, db)
      | [appointment_request] \<Rightarrow>
          (case request_expiration_datetime appointment_request of
             None \<Rightarrow> (Raises TypeError, db)
           | Some appoinment_request_expiration \<Rightarrow>
               (case dt_gt request_datetime appoinment_request_expiration of
                  Inl e \<Rightarrow> (Raises e, db)
                | Inr expired \<Rightarrow>
                    if expired then (Error RequestExpired, db)
                    else if status appointment_request \<noteq> ''accepted'' then
                      (let accepted = appointment_request\<lparr>status := new_status\<rparr>
                       in case save_raises accepted of
                            Some e \<Rightarrow> (Raises e, db)
                          | None \<Rightarrow>
                              (Data accepted,
                               db\<lparr>appointment_requests :=
                                    map (\<lambda>r. if ar_id r = appointment_request_id then accepted
                                              else r)
                                      (appointment_requests db)\<rparr>))
                    else (Error AlreadyAccepted, db)))
      | _ \<Rightarrow> (Raises MultipleObjectsReturned, db))"

section \<open>The next-window search in the spec's words\<close>

text \<open>The spec describes the search by its result: for the offsets 0 to 6 in turn, the
  candidate of an offset is the start time of that weekday's record on the reference
  date advanced by the offset, localized to the reference's zone, and the search returns
  the first candidate that is strictly later than the reference instant. These
  definitions follow that description; they are compared with the source's loop below.\<close>

definition localize :: "tzinfo \<Rightarrow> date \<Rightarrow> time \<Rightarrow> datetime" where
  "localize z dd t = \<lparr>wall = dd * DAY + t, tzinfo = Some z\<rparr>"

definition instant_of :: "datetime \<Rightarrow> int" where
  "instant_of d = (case tzinfo d of None \<Rightarrow> wall d | Some z \<Rightarrow> wall d - utcoffset z)"

definition candidate_start :: "tzinfo \<Rightarrow> WorkingHour list \<Rightarrow> datetime \<Rightarrow> nat \<Rightarrow> datetime option" where
  "candidate_start z schedule reference offsetDays =
     (case on_day (weekday_mapping ((weekday_of reference + offsetDays) mod 7)) schedule of
        None \<Rightarrow> None
      | Some wh \<Rightarrow> Some (localize z (date_of reference + int offsetDays) (start_time wh)))"

definition accepted_offset :: "tzinfo \<Rightarrow> WorkingHour list \<Rightarrow> datetime \<Rightarrow> nat \<Rightarrow> bool" where
  "accepted_offset z schedule reference offsetDays =
     (case candidate_start z schedule reference offsetDays of
        None \<Rightarrow> False
      | Some c \<Rightarrow> instant_of c > instant_of reference)"

definition first_accepted ::
  "tzinfo \<Rightarrow> WorkingHour list \<Rightarrow> datetime \<Rightarrow> nat list \<Rightarrow> datetime option" where
  "first_accepted z schedule reference offsets =
     (case find (accepted_offset z schedule reference) offsets of
        None \<Rightarrow> None
      | Some k \<Rightarrow> candidate_start z schedule reference k)"

definition findNextStart :: "tzinfo \<Rightarrow> WorkingHour list \<Rightarrow> datetime \<Rightarrow> datetime option" where
  "findNextStart z schedule reference = first_accepted z schedule reference [0..<7]"

section \<open>The rejection conditions of a creation in the spec's words\<close>

text \<open>The spec rejects a creation when the preferred weekday has no working-hour record
  of the doctor, when the preferred time lies strictly outside the working hours, or
  when it lies inside the break, both ends of the break included. The predicate follows
  that description; it is compared with the checks of the service below.\<close>

definition rejected :: "WorkingHour list \<Rightarrow> nat \<Rightarrow> datetime \<Rightarrow> bool" where
  "rejected whs doctor preferred =
     (case on_day (weekday_mapping (weekday_of preferred))
             (filter (\<lambda>w. wh_doctor_id w = doctor) whs) of
        None \<Rightarrow> True
      | Some wh \<Rightarrow>
          time_of preferred < start_time wh \<or> end_time wh < time_of preferred
          \<or> is_during_break (time_of preferred) wh)"

section \<open>The scenarios of the spec\<close>

text \<open>Day 738886 is Monday 2024-01-01. The scenarios are run in the zone UTC+9, as the
  spec's design notes ask.\<close>

definition clock :: "int \<Rightarrow> int \<Rightarrow> time" where
  "clock h m = (h * 60 + m) * MINUTE"

definition monday :: date where
  "monday = 738886"

definition utc9 :: tzinfo where
  "utc9 = FixedOffset 540"

definition utc :: tzinfo where
  "utc = FixedOffset 0"

definition on_date :: "date \<Rightarrow> time \<Rightarrow> tzinfo \<Rightarrow> datetime" where
  "on_date dd t z = \<lparr>wall = dd * DAY + t, tzinfo = Some z\<rparr>"

definition hours_9_17 :: "weekday \<Rightarrow> WorkingHour" where
  "hours_9_17 name =
     \<lparr>wh_doctor_id = 1, day_of_week = name, start_time = clock 9 0, end_time = clock 17 0,
      break_start_time = None, break_end_time = None\<rparr>"

definition hours_with_break :: "weekday \<Rightarrow> WorkingHour" where
  "hours_with_break name =
     (hours_9_17 name)\<lparr>break_start_time := Some (clock 12 0), break_end_time := Some (clock 13 0)\<rparr>"

definition clinic :: "WorkingHour list \<Rightarrow> AppointmentRequest list \<Rightarrow> database" where
  "clinic whs rows = \<lparr>working_hours = whs, appointment_requests = rows\<rparr>"

definition accepts_all :: backend where
  "accepts_all row = None"

definition rejects_all :: backend where
  "rejects_all row = Some IntegrityError"

definition stored_request :: "string \<Rightarrow> AppointmentRequest" where
  "stored_request st =
     \<lparr>ar_id = 1, patient_id = 7, ar_doctor_id = 1,
      preferred_datetime = on_date (monday + 7) (clock 10 0) utc9,
      request_expiration_datetime = Some (on_date monday (clock 10 20) utc9),
      status = st\<rparr>"

section \<open>Evaluation and helper lemmas\<close>

lemmas scenario_defs =
  on_date_def clock_def monday_def utc9_def utc_def hours_9_17_def hours_with_break_def
  MINUTE_def DAY_def

lemmas datetime_defs =
  date_of_def time_of_def weekday_of_def weekday_mapping_def combine_def dt_add_def
  timedelta_minutes_def on_day_def first_def

lemmas service_defs =
  create_appointment_request_service_def set_request_expiration_datetime_def
  find_next_working_period_start_def is_within_working_hours_def is_during_break_def
  make_aware_def dt_gt_def utcoffset_def new_request_def fresh_id_def save_error_message_def
  clinic_def accepts_all_def rejects_all_def rejected_def

lemma upt_7: "[0..<7] = [0, 1, 2, 3, 4, 5, 6]"
  by (simp add: upt_rec)

lemma on_day_Nil: "on_day name [] = None"
  by (simp add: on_day_def first_def)

lemma is_during_break_iff:
  "is_during_break t wh \<longleftrightarrow>
     (\<exists>bs be. break_start_time wh = Some bs \<and> break_end_time wh = Some be \<and> bs \<le> t \<and> t \<le> be)"
  by (auto simp: is_during_break_def split: option.splits)

text \<open>With no row in the schedule the loop finds nothing, whatever the offsets.\<close>

lemma find_next_loop_empty: "find_next_loop cur rd [] ks = Inr None"
  by (induction ks) (simp_all add: on_day_Nil)

text \<open>Adding a non-negative delta keeps a datetime later than another one.\<close>

lemma dt_gt_add:
  assumes "dt_gt a b = Inr True" and "0 \<le> td"
  shows "dt_gt (dt_add a td) b = Inr True"
  using assms by (auto simp: dt_gt_def dt_add_def split: option.splits)

text \<open>Every result of the loop passed the loop's own comparison with the request.\<close>

lemma find_next_loop_later:
  "find_next_loop cur rd sched ks = Inr (Some x) \<Longrightarrow> dt_gt x rd = Inr True"
proof (induction ks)
  case Nil
  then show ?case by simp
next
  case (Cons k ks)
  then show ?case
    by (auto simp: dt_gt_add timedelta_minutes_def MINUTE_def
        split: option.splits sum.splits if_splits)
qed

lemma make_aware_combine:
  "make_aware cur (combine dd t) (Some z) = Inr (localize z dd t)"
  by (simp add: make_aware_def combine_def localize_def)

lemma dt_gt_aware:
  "tzinfo a = Some za \<Longrightarrow> tzinfo b = Some zb \<Longrightarrow> dt_gt a b = Inr (instant_of a > instant_of b)"
  by (simp add: dt_gt_def instant_of_def)

text \<open>For an aware request the loop raises nothing, and over any list of offsets it
  returns the spec's first accepted candidate, 15 minutes later.\<close>

lemma find_next_loop_spec:
  assumes "tzinfo rd = Some z"
  shows "find_next_loop cur rd sched ks =
           Inr (map_option (\<lambda>start. dt_add start (timedelta_minutes 15))
                  (first_accepted z sched rd ks))"
proof (induction ks)
  case Nil
  show ?case by (simp add: first_accepted_def)
next
  case (Cons k ks)
  show ?case
  proof (cases "on_day (weekday_mapping ((weekday_of rd + k) mod 7)) sched")
    case None
    then show ?thesis
      using Cons by (simp add: first_accepted_def accepted_offset_def candidate_start_def)
  next
    case (Some wh)
    have "tzinfo (localize z (date_of rd + int k) (start_time wh)) = Some z"
      by (simp add: localize_def)
    then have gt: "dt_gt (localize z (date_of rd + int k) (start_time wh)) rd =
        Inr (instant_of (localize z (date_of rd + int k) (start_time wh)) > instant_of rd)"
      using assms by (rule dt_gt_aware)
    show ?thesis
      using Cons Some assms
      by (simp add: make_aware_combine gt first_accepted_def accepted_offset_def
          candidate_start_def)
  qed
qed

text \<open>The service's one query for the doctor and the weekday is the query of
  \<open>on_day\<close> on the doctor's schedule.\<close>

lemma first_filter_on_day:
  "first (filter (\<lambda>w. wh_doctor_id w = doctor \<and> day_of_week w = name) whs)
     = on_day name (filter (\<lambda>w. wh_doctor_id w = doctor) whs)"
  by (simp add: on_day_def conj_commute)

lemma first_filter_none:
  "filter P rows = [] \<Longrightarrow> first (filter (\<lambda>w. P w \<and> Q w) rows) = None"
  by (induction rows) (auto simp: first_def split: if_splits)

text \<open>The service's three checks are the spec's rejection conditions, and a rejection
  leaves the database as it was.\<close>

lemma create_rejected:
  assumes "rejected (working_hours db) doctor preferred"
  shows "\<exists>m. create_appointment_request_service cur save_raises db patient doctor preferred rq
               = (Error m, db)"
  using assms
  by (auto simp: create_appointment_request_service_def rejected_def first_filter_on_day
      is_during_break_def Let_def split: option.splits)

lemma create_not_rejected:
  assumes "\<not> rejected (working_hours db) doctor preferred"
  shows "create_appointment_request_service cur save_raises db patient doctor preferred rq =
     (case rq of
        None \<Rightarrow> (Raises AttributeError, db)
      | Some rd \<Rightarrow>
          (case set_request_expiration_datetime cur (working_hours db) rd doctor of
             Inl e \<Rightarrow> (Raises e, db)
           | Inr x \<Rightarrow>
               (case save_raises (new_request db patient doctor preferred x) of
                  Some e \<Rightarrow> (Error (save_error_message e), db)
                | None \<Rightarrow>
                    (Data (new_request db patient doctor preferred x),
                     db\<lparr>appointment_requests :=
                          appointment_requests db @ [new_request db patient doctor preferred x]\<rparr>))))"
  using assms
  by (auto simp: create_appointment_request_service_def rejected_def first_filter_on_day
      is_during_break_def Let_def split: option.splits sum.splits)

section \<open>The expiration policy\<close>

text \<open>Outside the break branch the zone of an aware request is kept: the in-hours
  branch adds to the request itself, and the search localizes each candidate to the
  request's zone.\<close>

lemma find_next_loop_zone:
  assumes "tzinfo rd = Some z" and "find_next_loop cur rd sched ks = Inr (Some x)"
  shows "tzinfo x = Some z"
proof -
  from assms obtain start where "first_accepted z sched rd ks = Some start"
    and x: "x = dt_add start (timedelta_minutes 15)"
    by (auto simp: find_next_loop_spec)
  then have "tzinfo start = Some z"
    by (auto simp: first_accepted_def candidate_start_def localize_def split: option.splits)
  with x show ?thesis by (simp add: dt_add_def)
qed

text \<open>In the break branch the result is the value of \<^verbatim>\<open>datetime.combine\<close> moved by
  15 minutes, which has no zone, whatever the zone of the request.\<close>

lemma in_break_result_naive:
  assumes "on_day (weekday_mapping (weekday_of rd)) (filter (\<lambda>w. wh_doctor_id w = doctor_id) whs)
             = Some wh"
    and "is_within_working_hours (time_of rd) wh" and "is_during_break (time_of rd) wh"
    and "set_request_expiration_datetime cur whs rd doctor_id = Inr (Some x)"
  shows "tzinfo x = None"
  using assms
  by (auto simp: set_request_expiration_datetime_def dt_add_def combine_def
      split: option.splits)

text \<open>
  Claim C1 (time zone preservation): every instant returned by
  \<^verbatim>\<open>set_request_expiration_datetime\<close> for a request in zone Z is an aware instant in
  zone Z, the break branch included.

  The code does not do this in the break branch. For the doctor with Monday hours
  09:00 to 17:00 and a break from 12:00 to 13:00, and the request of Monday 12:30 in
  the zone UTC+9, the service returns Monday 13:15 with no \<^verbatim>\<open>tzinfo\<close>: the value of
  \<^verbatim>\<open>datetime.combine\<close> is never passed to \<^verbatim>\<open>make_aware\<close>, which the search does
  three lines after its own \<^verbatim>\<open>combine\<close>.
\<close>

theorem in_break_returns_naive:
  "set_request_expiration_datetime utc [hours_with_break Monday]
       (on_date monday (clock 12 30) utc9) 1
     = Inr (Some \<lparr>wall = monday * DAY + clock 13 15, tzinfo = None\<rparr>)
   \<and> tzinfo (on_date monday (clock 12 30) utc9) = Some utc9"
  by (simp add: set_request_expiration_datetime_def is_within_working_hours_def
      is_during_break_def datetime_defs scenario_defs)

text \<open>
  Claim C2 (the break rule): when the time of the request lies within the working hours
  of the day's record and inside its break, both ends included, the expiration is the
  date of the request combined with the end of the break, plus 15 minutes. The wall
  clock of the result is spelled out; its zone is the subject of claim C1.
\<close>

theorem in_break_expiration:
  assumes "on_day (weekday_mapping (weekday_of rd)) (filter (\<lambda>w. wh_doctor_id w = doctor_id) whs)
             = Some wh"
    and "start_time wh \<le> time_of rd" and "time_of rd \<le> end_time wh"
    and "break_start_time wh = Some bs" and "break_end_time wh = Some be"
    and "bs \<le> time_of rd" and "time_of rd \<le> be"
  shows "set_request_expiration_datetime cur whs rd doctor_id
           = Inr (Some (dt_add (combine (date_of rd) be) (timedelta_minutes 15)))
         \<and> wall (dt_add (combine (date_of rd) be) (timedelta_minutes 15))
             = date_of rd * DAY + be + 15 * MINUTE"
  using assms
  by (simp add: set_request_expiration_datetime_def is_within_working_hours_def
      is_during_break_def dt_add_def combine_def timedelta_minutes_def)

text \<open>Scenario B: break 12:00 to 13:00, request Monday 12:30, expiration Monday 13:15.\<close>

theorem in_break_expiration_witness:
  "time_of (on_date monday (clock 12 30) utc9) = clock 12 30
   \<and> set_request_expiration_datetime utc [hours_with_break Monday]
         (on_date monday (clock 12 30) utc9) 1
       = Inr (Some (combine monday (clock 13 15)))"
proof -
  let ?rd = "on_date monday (clock 12 30) utc9"
  let ?wh = "hours_with_break Monday"
  have t: "time_of ?rd = clock 12 30"
    by (simp add: datetime_defs scenario_defs)
  have rec: "on_day (weekday_mapping (weekday_of ?rd)) (filter (\<lambda>w. wh_doctor_id w = 1) [?wh])
               = Some ?wh"
    by (simp add: datetime_defs scenario_defs)
  have d: "date_of ?rd = monday"
    by (simp add: datetime_defs scenario_defs)
  have "set_request_expiration_datetime utc [?wh] ?rd 1
           = Inr (Some (dt_add (combine (date_of ?rd) (clock 13 0)) (timedelta_minutes 15)))"
    using in_break_expiration [of ?rd 1 "[?wh]" ?wh "clock 12 0" "clock 13 0" utc] rec t
    by (simp add: scenario_defs)
  then show ?thesis
    using t d by (simp add: datetime_defs scenario_defs)
qed

text \<open>
  Claim C3 (the in-hours rule): when the time of the request lies within the working
  hours of the day's record, both ends included, and not inside a break (or the record
  has no break), the expiration is the request instant plus 20 minutes, in the request's
  own zone.
\<close>

theorem in_hours_expiration:
  assumes "on_day (weekday_mapping (weekday_of rd)) (filter (\<lambda>w. wh_doctor_id w = doctor_id) whs)
             = Some wh"
    and "start_time wh \<le> time_of rd" and "time_of rd \<le> end_time wh"
    and "\<not> is_during_break (time_of rd) wh"
  shows "set_request_expiration_datetime cur whs rd doctor_id
           = Inr (Some (dt_add rd (timedelta_minutes 20)))"
  using assms
  by (simp add: set_request_expiration_datetime_def is_within_working_hours_def)

text \<open>Scenario A: hours 09:00 to 17:00, no break, request Monday 10:00, expiration
  Monday 10:20.\<close>

theorem in_hours_expiration_witness:
  "\<not> is_during_break (time_of (on_date monday (clock 10 0) utc9)) (hours_9_17 Monday)
   \<and> set_request_expiration_datetime utc [hours_9_17 Monday]
         (on_date monday (clock 10 0) utc9) 1
       = Inr (Some (on_date monday (clock 10 20) utc9))"
proof -
  let ?rd = "on_date monday (clock 10 0) utc9"
  let ?wh = "hours_9_17 Monday"
  have t: "time_of ?rd = clock 10 0"
    by (simp add: datetime_defs scenario_defs)
  have rec: "on_day (weekday_mapping (weekday_of ?rd)) (filter (\<lambda>w. wh_doctor_id w = 1) [?wh])
               = Some ?wh"
    by (simp add: datetime_defs scenario_defs)
  have nb: "\<not> is_during_break (time_of ?rd) ?wh"
    by (simp add: is_during_break_def scenario_defs)
  have "set_request_expiration_datetime utc [?wh] ?rd 1
           = Inr (Some (dt_add ?rd (timedelta_minutes 20)))"
    using in_hours_expiration [of ?rd 1 "[?wh]" ?wh utc] rec t nb
    by (simp add: scenario_defs)
  then show ?thesis
    using nb by (simp add: datetime_defs scenario_defs)
qed

text \<open>
  Claim C4 (the rollover rule): when the aware request lies outside the working hours of
  its day (no record that day, before the start or after the end), the expiration is the
  start found by the next-window search plus 15 minutes, and that start is the candidate
  of the first offset in 0..6 whose record's start time, on the request's date advanced
  by the offset and localized to the request's zone, is strictly later than the request;
  when no offset has such a candidate the expiration is absent. The source adds the 15
  minutes inside the search and returns its result as it is.
\<close>

theorem rollover_expiration:
  assumes "tzinfo rd = Some z"
    and "on_day (weekday_mapping (weekday_of rd)) (filter (\<lambda>w. wh_doctor_id w = doctor_id) whs)
           = None
         \<or> (\<exists>wh. on_day (weekday_mapping (weekday_of rd))
                    (filter (\<lambda>w. wh_doctor_id w = doctor_id) whs) = Some wh
               \<and> (time_of rd < start_time wh \<or> end_time wh < time_of rd))"
  shows "set_request_expiration_datetime cur whs rd doctor_id
           = Inr (map_option (\<lambda>start. dt_add start (timedelta_minutes 15))
                    (findNextStart z (filter (\<lambda>w. wh_doctor_id w = doctor_id) whs) rd))"
proof -
  let ?sched = "filter (\<lambda>w. wh_doctor_id w = doctor_id) whs"
  have search: "find_next_working_period_start cur rd ?sched
      = Inr (map_option (\<lambda>start. dt_add start (timedelta_minutes 15))
               (findNextStart z ?sched rd))"
    unfolding find_next_working_period_start_def findNextStart_def
    using assms(1) by (rule find_next_loop_spec)
  from assms(2) show ?thesis
  proof
    assume "on_day (weekday_mapping (weekday_of rd)) ?sched = None"
    then show ?thesis
      by (simp add: set_request_expiration_datetime_def search)
  next
    assume "\<exists>wh. on_day (weekday_mapping (weekday_of rd)) ?sched = Some wh
               \<and> (time_of rd < start_time wh \<or> end_time wh < time_of rd)"
    then obtain wh where "on_day (weekday_mapping (weekday_of rd)) ?sched = Some wh"
      and "time_of rd < start_time wh \<or> end_time wh < time_of rd"
      by blast
    then show ?thesis
      by (auto simp: set_request_expiration_datetime_def is_within_working_hours_def search)
  qed
qed

text \<open>Scenario C: request Monday 18:00, after the Monday hours; the only other record
  is Wednesday 09:00 to 17:00; expiration Wednesday 09:15.\<close>

theorem rollover_expiration_witness:
  "findNextStart utc9 [hours_9_17 Monday, hours_9_17 Wednesday] (on_date monday (clock 18 0) utc9)
     = Some (on_date (monday + 2) (clock 9 0) utc9)
   \<and> set_request_expiration_datetime utc [hours_9_17 Monday, hours_9_17 Wednesday]
         (on_date monday (clock 18 0) utc9) 1
       = Inr (Some (on_date (monday + 2) (clock 9 15) utc9))"
proof -
  let ?rd = "on_date monday (clock 18 0) utc9"
  let ?whs = "[hours_9_17 Monday, hours_9_17 Wednesday]"
  have sched: "filter (\<lambda>w. wh_doctor_id w = 1) ?whs = ?whs"
    by (simp add: scenario_defs)
  have aware: "tzinfo ?rd = Some utc9"
    by (simp add: scenario_defs)
  have after: "\<exists>wh. on_day (weekday_mapping (weekday_of ?rd)) ?whs = Some wh
                 \<and> (time_of ?rd < start_time wh \<or> end_time wh < time_of ?rd)"
    by (simp add: datetime_defs scenario_defs)
  have found: "findNextStart utc9 ?whs ?rd = Some (on_date (monday + 2) (clock 9 0) utc9)"
    by (simp add: findNextStart_def first_accepted_def accepted_offset_def candidate_start_def
        localize_def instant_of_def utcoffset_def upt_7 datetime_defs scenario_defs)
  have "set_request_expiration_datetime utc ?whs ?rd 1
          = Inr (map_option (\<lambda>start. dt_add start (timedelta_minutes 15))
                   (findNextStart utc9 (filter (\<lambda>w. wh_doctor_id w = 1) ?whs) ?rd))"
    using rollover_expiration [of ?rd utc9 1 ?whs utc] aware after sched by simp
  then show ?thesis
    using found sched by (simp add: datetime_defs scenario_defs)
qed

section \<open>The next-window search\<close>

text \<open>
  Claim C5 (absent only for an empty schedule): the search tries at most seven days and
  returns absent if and only if the doctor has no working-hour record on any weekday.

  The loop does try the seven offsets 0 to 6 and no more, and an empty schedule gives
  absent (\<open>find_next_loop_empty\<close>). The converse fails: the offsets stop at 6, so the
  weekday of the request is tried on the request's own date only. For a doctor whose
  only record is Monday 09:00 to 17:00 and a request on Monday 18:00, the Monday
  candidate is earlier than the request, no other weekday has a record, and the search
  returns absent although the doctor works again the Monday after.
\<close>

theorem search_absent_with_record:
  "find_next_working_period_start utc (on_date monday (clock 18 0) utc9) [hours_9_17 Monday]
     = Inr None"
  by (simp add: find_next_working_period_start_def upt_7 make_aware_def dt_gt_def utcoffset_def
      datetime_defs scenario_defs)

text \<open>
  Claim C6 (forward progress): whenever the search returns an instant, that instant is
  strictly later than the request, in Python's own comparison of the two datetimes.
  The returned value is the accepted start plus 15 minutes.
\<close>

theorem search_forward_progress:
  assumes "find_next_working_period_start cur rd sched = Inr (Some x)"
  shows "dt_gt x rd = Inr True"
  using assms unfolding find_next_working_period_start_def
  by (rule find_next_loop_later)

text \<open>A request on Monday 08:00, before the Monday hours, gives Monday 09:15.\<close>

theorem search_forward_progress_witness:
  "find_next_working_period_start utc (on_date monday (clock 8 0) utc9) [hours_9_17 Monday]
     = Inr (Some (on_date monday (clock 9 15) utc9))
   \<and> dt_gt (on_date monday (clock 9 15) utc9) (on_date monday (clock 8 0) utc9) = Inr True"
proof -
  have found:
    "find_next_working_period_start utc (on_date monday (clock 8 0) utc9) [hours_9_17 Monday]
       = Inr (Some (on_date monday (clock 9 15) utc9))"
    by (simp add: find_next_working_period_start_def upt_7 make_aware_def dt_gt_def utcoffset_def
        datetime_defs scenario_defs)
  from found search_forward_progress [OF found] show ?thesis
    by simp
qed

section \<open>Creating a request\<close>

text \<open>Scenario D: for a doctor with no working-hour record at all the expiration
  policy returns absent. The creation service answers such a doctor with the error of
  its weekday check, which runs before the expiration is computed, and stores
  nothing.\<close>

lemma no_records_no_request:
  assumes "filter (\<lambda>w. wh_doctor_id w = doctor_id) (working_hours db) = []"
  shows "set_request_expiration_datetime cur (working_hours db) rd doctor_id = Inr None
         \<and> create_appointment_request_service cur save_raises db patient doctor_id preferred rq
             = (Error NotAvailableThatDay, db)"
proof
  show "set_request_expiration_datetime cur (working_hours db) rd doctor_id = Inr None"
    using assms
    by (simp add: set_request_expiration_datetime_def on_day_Nil
        find_next_working_period_start_def find_next_loop_empty)
next
  have "first (filter (\<lambda>w. wh_doctor_id w = doctor_id
                         \<and> day_of_week w = weekday_mapping (weekday_of preferred))
                (working_hours db)) = None"
    using assms by (rule first_filter_none)
  then show "create_appointment_request_service cur save_raises db patient doctor_id preferred rq
             = (Error NotAvailableThatDay, db)"
    by (simp add: create_appointment_request_service_def)
qed

text \<open>
  Claim C7 (an absent expiration is never silently accepted): when the expiration
  policy returns absent, the creation service treats that result as an error and does
  not store a request that carries an absent expiration.

  The code does not do this. Between the call of the policy and the save the service
  never tests the result. For the doctor whose only record is Monday 09:00 to 17:00, a
  request made on Monday 18:00 for the Monday after at 10:00 passes the three checks
  of the preferred time; the policy returns absent for the request instant, because the
  search stops at offset 6; and the service stores the new pending request with no
  expiration and returns it as a success.
\<close>

theorem absent_expiration_is_stored:
  "set_request_expiration_datetime utc (working_hours (clinic [hours_9_17 Monday] []))
       (on_date monday (clock 18 0) utc9) 1
     = Inr None
   \<and> create_appointment_request_service utc accepts_all (clinic [hours_9_17 Monday] []) 7 1
       (on_date (monday + 7) (clock 10 0) utc9) (Some (on_date monday (clock 18 0) utc9))
     = (Data \<lparr>ar_id = 1, patient_id = 7, ar_doctor_id = 1,
              preferred_datetime = on_date (monday + 7) (clock 10 0) utc9,
              request_expiration_datetime = None, status = ''pending''\<rparr>,
        clinic [hours_9_17 Monday]
          [\<lparr>ar_id = 1, patient_id = 7, ar_doctor_id = 1,
            preferred_datetime = on_date (monday + 7) (clock 10 0) utc9,
            request_expiration_datetime = None, status = ''pending''\<rparr>])"
  by (simp add: service_defs upt_7 datetime_defs scenario_defs Let_def)

text \<open>
  Claim C8 (the rejection conditions): the creation service returns an error and stores
  nothing exactly when the preferred weekday has no record of the doctor, the preferred
  time lies strictly outside the inclusive working hours, or it lies inside the inclusive
  break; otherwise it stores the request with the expiration of the expiration policy.

  As stated the claim fails: the service also returns an error when saving the new row
  raises, which its three exception handlers turn into an error result. With a backend
  that refuses the row, a request that meets none of the three conditions is answered
  with the database error.
\<close>

theorem creation_error_on_save_failure:
  "fst (create_appointment_request_service utc rejects_all (clinic [hours_9_17 Monday] []) 7 1
          (on_date (monday + 7) (clock 10 0) utc9) (Some (on_date monday (clock 10 0) utc9)))
     = Error DatabaseError
   \<and> \<not> rejected (working_hours (clinic [hours_9_17 Monday] [])) 1
          (on_date (monday + 7) (clock 10 0) utc9)"
  by (simp add: service_defs datetime_defs scenario_defs)

text \<open>
  Claim C8 as amended: the service returns an error exactly when one of the three
  conditions holds or the expiration policy returns a result and saving the new row
  raises; whenever it returns no row (an error, or an exception that leaves the service)
  the database is unchanged; and when none of the three conditions holds, the expiration
  policy returns a result for the request instant and the save succeeds, the service
  stores the new pending request with exactly that expiration and returns it.
\<close>

theorem creation_outcome:
  "((\<exists>m. fst (create_appointment_request_service cur save_raises db patient doctor preferred rq)
            = Error m)
      \<longleftrightarrow> rejected (working_hours db) doctor preferred
          \<or> (\<exists>rd x e. rq = Some rd
                \<and> set_request_expiration_datetime cur (working_hours db) rd doctor = Inr x
                \<and> save_raises (new_request db patient doctor preferred x) = Some e))
   \<and> ((\<forall>row. fst (create_appointment_request_service cur save_raises db patient doctor preferred rq)
               \<noteq> Data row)
        \<longrightarrow> snd (create_appointment_request_service cur save_raises db patient doctor preferred rq)
              = db)
   \<and> (\<not> rejected (working_hours db) doctor preferred \<and> rq = Some rd
        \<and> set_request_expiration_datetime cur (working_hours db) rd doctor = Inr x
        \<and> save_raises (new_request db patient doctor preferred x) = None
        \<longrightarrow> create_appointment_request_service cur save_raises db patient doctor preferred rq
              = (Data (new_request db patient doctor preferred x),
                 db\<lparr>appointment_requests :=
                      appointment_requests db @ [new_request db patient doctor preferred x]\<rparr>)
            \<and> request_expiration_datetime (new_request db patient doctor preferred x) = x)"
proof (cases "rejected (working_hours db) doctor preferred")
  case True
  from create_rejected [OF True] obtain m where
    "create_appointment_request_service cur save_raises db patient doctor preferred rq
       = (Error m, db)"
    by blast
  with True show ?thesis by simp
next
  case False
  show ?thesis
    unfolding create_not_rejected [OF False]
    using False by (auto simp: new_request_def split: option.splits sum.splits)
qed

text \<open>A request made on Monday 10:00 for the Monday after at 10:00 is stored as request
  1, pending, expiring on the first Monday at 10:20.\<close>

theorem creation_outcome_witness:
  "\<not> rejected (working_hours (clinic [hours_9_17 Monday] [])) 1
      (on_date (monday + 7) (clock 10 0) utc9)
   \<and> set_request_expiration_datetime utc (working_hours (clinic [hours_9_17 Monday] []))
        (on_date monday (clock 10 0) utc9) 1 = Inr (Some (on_date monday (clock 10 20) utc9))
   \<and> snd (create_appointment_request_service utc accepts_all (clinic [hours_9_17 Monday] []) 7 1
        (on_date (monday + 7) (clock 10 0) utc9) (Some (on_date monday (clock 10 0) utc9)))
      = clinic [hours_9_17 Monday]
          [\<lparr>ar_id = 1, patient_id = 7, ar_doctor_id = 1,
            preferred_datetime = on_date (monday + 7) (clock 10 0) utc9,
            request_expiration_datetime = Some (on_date monday (clock 10 20) utc9),
            status = ''pending''\<rparr>]"
proof -
  let ?db = "clinic [hours_9_17 Monday] []"
  let ?pref = "on_date (monday + 7) (clock 10 0) utc9"
  let ?rd = "on_date monday (clock 10 0) utc9"
  let ?x = "Some (on_date monday (clock 10 20) utc9)"
  have ok: "\<not> rejected (working_hours ?db) 1 ?pref"
    by (simp add: service_defs datetime_defs scenario_defs)
  have ex: "set_request_expiration_datetime utc (working_hours ?db) ?rd 1 = Inr ?x"
    by (simp add: service_defs datetime_defs scenario_defs)
  have sv: "accepts_all (new_request ?db 7 1 ?pref ?x) = None"
    by (simp add: accepts_all_def)
  have "create_appointment_request_service utc accepts_all ?db 7 1 ?pref (Some ?rd)
          = (Data (new_request ?db 7 1 ?pref ?x),
             ?db\<lparr>appointment_requests :=
                  appointment_requests ?db @ [new_request ?db 7 1 ?pref ?x]\<rparr>)"
    using creation_outcome [of utc accepts_all ?db 7 1 ?pref "Some ?rd" ?rd ?x] ok ex sv
    by blast
  then show ?thesis
    using ok ex by (simp add: new_request_def fresh_id_def clinic_def)
qed

section \<open>Accepting a request\<close>

text \<open>The outcomes of the service by the state it finds: no row, or the one row with
  its expiration and the result of Python's comparison.\<close>


lemma update_not_found:
  "filter (\<lambda>r. ar_id r = i) (appointment_requests db) = []
   \<Longrightarrow> update_appointment_request_status save_raises db i new_status now = (Error NotFound, db)"
  by (simp add: update_appointment_request_status_def)

lemma update_found:
  assumes "filter (\<lambda>r. ar_id r = i) (appointment_requests db) = [r]"
    and "request_expiration_datetime r = Some e"
    and "dt_gt now e = Inr expired"
  shows "update_appointment_request_status save_raises db i new_status now =
     (if expired then (Error RequestExpired, db)
      else if status r = ''accepted'' then (Error AlreadyAccepted, db)
      else (case save_raises (r\<lparr>status := new_status\<rparr>) of
              Some ex \<Rightarrow> (Raises ex, db)
            | None \<Rightarrow>
                (Data (r\<lparr>status := new_status\<rparr>),
                 db\<lparr>appointment_requests :=
                      map (\<lambda>q. if ar_id q = i then r\<lparr>status := new_status\<rparr> else q)
                        (appointment_requests db)\<rparr>)))"
  using assms by (simp add: update_appointment_request_status_def Let_def)

lemma update_keeps_accepted_target:
  assumes "filter (\<lambda>r. ar_id r = i) (appointment_requests db) = [r]"
    and "status r = ''accepted''"
  shows "snd (update_appointment_request_status save_raises db i new_status now) = db"
  using assms
  by (auto simp: update_appointment_request_status_def Let_def split: option.splits sum.splits)

lemma update_unchanged_or_mapped:
  "snd (update_appointment_request_status save_raises db i new_status now) = db
   \<or> (\<exists>r. filter (\<lambda>q. ar_id q = i) (appointment_requests db) = [r]
          \<and> status r \<noteq> ''accepted''
          \<and> snd (update_appointment_request_status save_raises db i new_status now)
              = db\<lparr>appointment_requests :=
                     map (\<lambda>q. if ar_id q = i then r\<lparr>status := new_status\<rparr> else q)
                       (appointment_requests db)\<rparr>)"
  by (auto simp: update_appointment_request_status_def Let_def
      split: option.splits sum.splits list.splits)

lemma update_keeps_accepted_rows:
  assumes "a \<in> set (appointment_requests db)" and "status a = ''accepted''"
  shows "a \<in> set (appointment_requests
                    (snd (update_appointment_request_status save_raises db i new_status now)))"
proof -
  let ?db' = "snd (update_appointment_request_status save_raises db i new_status now)"
  from update_unchanged_or_mapped [of save_raises db i new_status now]
  consider "?db' = db"
    | r where "filter (\<lambda>q. ar_id q = i) (appointment_requests db) = [r]"
        "status r \<noteq> ''accepted''"
        "?db' = db\<lparr>appointment_requests :=
                     map (\<lambda>q. if ar_id q = i then r\<lparr>status := new_status\<rparr> else q)
                       (appointment_requests db)\<rparr>"
    by blast
  then show ?thesis
  proof cases
    case 1
    with assms show ?thesis by simp
  next
    case 2
    have "ar_id a \<noteq> i"
    proof
      assume "ar_id a = i"
      with assms(1) have "a \<in> set (filter (\<lambda>q. ar_id q = i) (appointment_requests db))"
        by simp
      with 2(1) have "a = r" by simp
      with assms(2) 2(2) show False by simp
    qed
    with assms(1) have "a \<in> set (map (\<lambda>q. if ar_id q = i then r\<lparr>status := new_status\<rparr> else q)
                       (appointment_requests db))"
      by (force simp: image_iff)
    with 2(3) show ?thesis by simp
  qed
qed

text \<open>
  Claim C9 (the acceptance state machine): an acceptance attempt fails with the not-found
  error when no request has the given id; on an existing request it fails with the
  expired error when the current instant is strictly after the stored expiration, fails
  with the already-accepted error when (not expired and) the status is already accepted,
  and otherwise sets the status to the new status of the call, which is accepted for an
  acceptance attempt, and stores the row; every stored request whose status is accepted
  is still in the table, unchanged, after any call.
\<close>

theorem acceptance_outcomes:
  "(filter (\<lambda>q. ar_id q = i) (appointment_requests db) = []
      \<longrightarrow> update_appointment_request_status save_raises db i new_status now
            = (Error NotFound, db))
   \<and> (filter (\<lambda>q. ar_id q = i) (appointment_requests db) = [r]
        \<and> request_expiration_datetime r = Some e \<and> dt_gt now e = Inr True
      \<longrightarrow> update_appointment_request_status save_raises db i new_status now
            = (Error RequestExpired, db))
   \<and> (filter (\<lambda>q. ar_id q = i) (appointment_requests db) = [r]
        \<and> request_expiration_datetime r = Some e \<and> dt_gt now e = Inr False
        \<and> status r = ''accepted''
      \<longrightarrow> update_appointment_request_status save_raises db i new_status now
            = (Error AlreadyAccepted, db))
   \<and> (filter (\<lambda>q. ar_id q = i) (appointment_requests db) = [r]
        \<and> request_expiration_datetime r = Some e \<and> dt_gt now e = Inr False
        \<and> status r \<noteq> ''accepted'' \<and> save_raises (r\<lparr>status := new_status\<rparr>) = None
      \<longrightarrow> update_appointment_request_status save_raises db i new_status now
            = (Data (r\<lparr>status := new_status\<rparr>),
               db\<lparr>appointment_requests :=
                    map (\<lambda>q. if ar_id q = i then r\<lparr>status := new_status\<rparr> else q)
                      (appointment_requests db)\<rparr>))
   \<and> (a \<in> set (appointment_requests db) \<and> status a = ''accepted''
      \<longrightarrow> a \<in> set (appointment_requests
                      (snd (update_appointment_request_status save_raises db i new_status now))))"
proof (intro conjI impI)
  assume "filter (\<lambda>q. ar_id q = i) (appointment_requests db) = []"
  then show "update_appointment_request_status save_raises db i new_status now
               = (Error NotFound, db)"
    by (rule update_not_found)
next
  assume "filter (\<lambda>q. ar_id q = i) (appointment_requests db) = [r]
            \<and> request_expiration_datetime r = Some e \<and> dt_gt now e = Inr True"
  then show "update_appointment_request_status save_raises db i new_status now
               = (Error RequestExpired, db)"
    by (simp add: update_found [where expired = True])
next
  assume "filter (\<lambda>q. ar_id q = i) (appointment_requests db) = [r]
            \<and> request_expiration_datetime r = Some e \<and> dt_gt now e = Inr False
            \<and> status r = ''accepted''"
  then show "update_appointment_request_status save_raises db i new_status now
               = (Error AlreadyAccepted, db)"
    by (simp add: update_found [where expired = False])
next
  assume "filter (\<lambda>q. ar_id q = i) (appointment_requests db) = [r]
            \<and> request_expiration_datetime r = Some e \<and> dt_gt now e = Inr False
            \<and> status r \<noteq> ''accepted'' \<and> save_raises (r\<lparr>status := new_status\<rparr>) = None"
  then show "update_appointment_request_status save_raises db i new_status now
            = (Data (r\<lparr>status := new_status\<rparr>),
               db\<lparr>appointment_requests :=
                    map (\<lambda>q. if ar_id q = i then r\<lparr>status := new_status\<rparr> else q)
                      (appointment_requests db)\<rparr>)"
    by (simp add: update_found [where expired = False])
next
  assume "a \<in> set (appointment_requests db) \<and> status a = ''accepted''"
  then show "a \<in> set (appointment_requests
                      (snd (update_appointment_request_status save_raises db i new_status now)))"
    by (simp add: update_keeps_accepted_rows)
qed

text \<open>A request expiring on Monday 10:20: an unknown id, an attempt at 10:21, an
  attempt on the already accepted request at 10:20, an attempt on the pending request at
  10:20 (the expiration instant itself is still in time), and a call that asks to set an
  accepted request back to pending.\<close>

theorem acceptance_outcomes_witness:
  "update_appointment_request_status accepts_all (clinic [] [stored_request ''pending'']) 2
       ''accepted'' (on_date monday (clock 10 0) utc9)
     = (Error NotFound, clinic [] [stored_request ''pending''])
   \<and> update_appointment_request_status accepts_all (clinic [] [stored_request ''pending'']) 1
       ''accepted'' (on_date monday (clock 10 21) utc9)
     = (Error RequestExpired, clinic [] [stored_request ''pending''])
   \<and> update_appointment_request_status accepts_all (clinic [] [stored_request ''accepted'']) 1
       ''accepted'' (on_date monday (clock 10 20) utc9)
     = (Error AlreadyAccepted, clinic [] [stored_request ''accepted''])
   \<and> update_appointment_request_status accepts_all (clinic [] [stored_request ''pending'']) 1
       ''accepted'' (on_date monday (clock 10 20) utc9)
     = (Data (stored_request ''accepted''), clinic [] [stored_request ''accepted''])
   \<and> stored_request ''accepted''
       \<in> set (appointment_requests
                (snd (update_appointment_request_status accepts_all
                        (clinic [] [stored_request ''accepted'']) 1 ''pending''
                        (on_date monday (clock 10 0) utc9))))"
proof -
  let ?p = "stored_request ''pending''"
  let ?a = "stored_request ''accepted''"
  let ?e = "on_date monday (clock 10 20) utc9"
  have exp: "request_expiration_datetime ?p = Some ?e" "request_expiration_datetime ?a = Some ?e"
    by (simp_all add: stored_request_def)
  have st: "status ?p \<noteq> ''accepted''" "status ?a = ''accepted''" "?p\<lparr>status := ''accepted''\<rparr> = ?a"
    by (simp_all add: stored_request_def)
  have late: "dt_gt (on_date monday (clock 10 21) utc9) ?e = Inr True"
    by (simp add: dt_gt_def scenario_defs)
  have intime: "dt_gt ?e ?e = Inr False"
    by (simp add: dt_gt_def scenario_defs)
  have sv: "accepts_all ?a = None"
    by (simp add: accepts_all_def)
  have f2: "filter (\<lambda>q. ar_id q = 2) (appointment_requests (clinic [] [?p])) = []"
    by (simp add: clinic_def stored_request_def)
  have fp: "filter (\<lambda>q. ar_id q = 1) (appointment_requests (clinic [] [?p])) = [?p]"
    by (simp add: clinic_def stored_request_def)
  have fa: "filter (\<lambda>q. ar_id q = 1) (appointment_requests (clinic [] [?a])) = [?a]"
    by (simp add: clinic_def stored_request_def)
  have mem: "?a \<in> set (appointment_requests (clinic [] [?a]))"
    by (simp add: clinic_def)
  have upd: "(clinic [] [?p])\<lparr>appointment_requests :=
                 map (\<lambda>q. if ar_id q = 1 then ?a else q) (appointment_requests (clinic [] [?p]))\<rparr>
             = clinic [] [?a]"
    by (simp add: clinic_def stored_request_def)
  have c1: "update_appointment_request_status accepts_all (clinic [] [?p]) 2
       ''accepted'' (on_date monday (clock 10 0) utc9) = (Error NotFound, clinic [] [?p])"
    using acceptance_outcomes [of 2 "clinic [] [?p]" accepts_all "''accepted''"
        "on_date monday (clock 10 0) utc9"] f2
    by blast
  have c2: "update_appointment_request_status accepts_all (clinic [] [?p]) 1
       ''accepted'' (on_date monday (clock 10 21) utc9) = (Error RequestExpired, clinic [] [?p])"
    using acceptance_outcomes [of 1 "clinic [] [?p]" accepts_all "''accepted''"
        "on_date monday (clock 10 21) utc9" ?p ?e] fp exp late
    by blast
  have c3: "update_appointment_request_status accepts_all (clinic [] [?a]) 1
       ''accepted'' ?e = (Error AlreadyAccepted, clinic [] [?a])"
    using acceptance_outcomes [of 1 "clinic [] [?a]" accepts_all "''accepted''" ?e ?a ?e]
      fa exp intime st
    by blast
  have c4: "update_appointment_request_status accepts_all (clinic [] [?p]) 1
       ''accepted'' ?e = (Data ?a, clinic [] [?a])"
  proof -
    have "update_appointment_request_status accepts_all (clinic [] [?p]) 1 ''accepted'' ?e
            = (Data (?p\<lparr>status := ''accepted''\<rparr>),
               (clinic [] [?p])\<lparr>appointment_requests :=
                  map (\<lambda>q. if ar_id q = 1 then ?p\<lparr>status := ''accepted''\<rparr> else q)
                    (appointment_requests (clinic [] [?p]))\<rparr>)"
      using acceptance_outcomes [of 1 "clinic [] [?p]" accepts_all "''accepted''" ?e ?p ?e]
        fp exp(1) intime st(1) sv
      unfolding st(3) by blast
    then show ?thesis
      unfolding st(3) upd .
  qed
  have c5: "?a \<in> set (appointment_requests
                (snd (update_appointment_request_status accepts_all
                        (clinic [] [?a]) 1 ''pending'' (on_date monday (clock 10 0) utc9))))"
    using acceptance_outcomes [of 1 "clinic [] [?a]" accepts_all "''pending''"
        "on_date monday (clock 10 0) utc9" ?a ?e ?a] mem st
    by blast
  from c1 c2 c3 c4 c5 show ?thesis by blast
qed

text \<open>
  Claim C10 (the expiration check comes first): for a request whose status is already
  accepted, an attempt made strictly after its expiration returns the expired error, not
  the already-accepted error; the already-accepted error is returned only when the
  current instant is not after the expiration.
\<close>

theorem expired_precedes_already_accepted:
  "(filter (\<lambda>q. ar_id q = i) (appointment_requests db) = [r]
      \<and> status r = ''accepted''
      \<and> request_expiration_datetime r = Some e \<and> dt_gt now e = Inr True
    \<longrightarrow> fst (update_appointment_request_status save_raises db i new_status now)
          = Error RequestExpired)
   \<and> (fst (update_appointment_request_status save_raises db i new_status now)
        = Error AlreadyAccepted
      \<longrightarrow> (\<exists>q x. filter (\<lambda>q. ar_id q = i) (appointment_requests db) = [q]
                 \<and> status q = ''accepted''
                 \<and> request_expiration_datetime q = Some x \<and> dt_gt now x = Inr False))"
  by (auto simp: update_appointment_request_status_def Let_def
      split: option.splits sum.splits list.splits if_splits)

text \<open>The accepted request that expired at 10:20, tried again at 10:21.\<close>

theorem expired_precedes_already_accepted_witness:
  "fst (update_appointment_request_status accepts_all (clinic [] [stored_request ''accepted'']) 1
          ''accepted'' (on_date monday (clock 10 21) utc9))
     = Error RequestExpired
   \<and> status (stored_request ''accepted'') = ''accepted''
   \<and> dt_gt (on_date monday (clock 10 21) utc9) (on_date monday (clock 10 20) utc9) = Inr True"
proof -
  let ?a = "stored_request ''accepted''"
  let ?e = "on_date monday (clock 10 20) utc9"
  have fa: "filter (\<lambda>q. ar_id q = 1) (appointment_requests (clinic [] [?a])) = [?a]"
    by (simp add: clinic_def stored_request_def)
  have st: "status ?a = ''accepted''" and exp: "request_expiration_datetime ?a = Some ?e"
    by (simp_all add: stored_request_def)
  have late: "dt_gt (on_date monday (clock 10 21) utc9) ?e = Inr True"
    by (simp add: dt_gt_def scenario_defs)
  have "fst (update_appointment_request_status accepts_all (clinic [] [?a]) 1
          ''accepted'' (on_date monday (clock 10 21) utc9)) = Error RequestExpired"
    using expired_precedes_already_accepted [of 1 "clinic [] [?a]" ?a ?e
        "on_date monday (clock 10 21) utc9" accepts_all "''accepted''"] fa st exp late
    by blast
  with st late show ?thesis by simp
qed

end
